theory Spec2Isabelle
  imports Main
begin

section \<open>Python values shared by the models\<close>

text \<open>
  Exceptions of the modelled code are values: a function that can raise returns
  \<open>py_error + 'a\<close>, with \<open>Inl\<close> for the raised exception.

  A \<open>ValidationError\<close> of Pydantic lists what was wrong with the input: a field that is
  missing or has an invalid value, by the name of the field, or a \<open>ValueError\<close> that a
  validator of the model raised, with its message.
\<close>

datatype error_detail =
    FieldInvalid string
  | ValidatorValueError string

datatype py_error =
    ValueError string
  | ValidationError "error_detail list"
  | AirflowException string
  | IndexError

text \<open>
  A field of a request body as it arrives: the key is missing, it is JSON null, or it
  holds a value.
\<close>

datatype 'a field = Missing | Null | Value 'a

text \<open>
  A \<open>datetime\<close>: an instant, and the UTC offset when the value is timezone-aware.
  Pydantic's \<open>AwareDatetime\<close> accepts only aware values.
\<close>

record py_datetime =
  instant :: int
  utcoffset :: "int option"

definition is_aware :: "py_datetime \<Rightarrow> bool" where
  "is_aware d = (utcoffset d \<noteq> None)"

section \<open>airflow/api\_internal/internal\_api\_call.py\<close>

text \<open>
  A Python callable takes positional arguments and keyword arguments, runs in a state
  it may change, and either raises or returns.
\<close>

type_synonym ('a, 's, 'e, 'r) py_callable =
  "'a list \<Rightarrow> (string \<times> 'a) list \<Rightarrow> 's \<Rightarrow> ('e + 'r) \<times> 's"

text \<open>
  \<^verbatim>\<open>
  def internal_api_call(func):
      @wraps(func)
      def wrapper(*args, **kwargs):
          return func(*args, **kwargs)
      return wrapper
  \<close>
\<close>

definition internal_api_call ::
  "('a, 's, 'e, 'r) py_callable \<Rightarrow> ('a, 's, 'e, 'r) py_callable" where
  "internal_api_call func = (\<lambda>args kwargs. func args kwargs)"

section \<open>airflow/api\_fastapi/core\_api/datamodels/dag\_run.py\<close>

subsection \<open>DagRunState\<close>

text \<open>
  Modelled from the spec: the enum \<open>airflow.utils.state.DagRunState\<close>, which
  \<open>dag_run.py\<close> imports and whose declaration is in another module. Its members are the
  states the data model gives a DagRun: state \<open>\<in>\<close> {QUEUED, RUNNING, SUCCESS, FAILED}.
\<close>

datatype DagRunState = QUEUED | RUNNING | SUCCESS | FAILED

subsection \<open>DAGRunPatchStates and DAGRunPatchBody\<close>

text \<open>
  \<^verbatim>\<open>
  class DAGRunPatchStates(str, Enum):
      """Enum for DAG Run states when updating a DAG Run."""
      QUEUED = DagRunState.QUEUED
      SUCCESS = DagRunState.SUCCESS
      FAILED = DagRunState.FAILED
  \<close>
  The members carry the prefix \<open>PATCH_\<close>, to keep them apart from the members of
  \<open>DagRunState\<close>; \<open>DAGRunPatchStates_value\<close> is the \<open>value\<close> of a member.
\<close>

datatype DAGRunPatchStates = PATCH_QUEUED | PATCH_SUCCESS | PATCH_FAILED

fun DAGRunPatchStates_value :: "DAGRunPatchStates \<Rightarrow> DagRunState" where
  "DAGRunPatchStates_value PATCH_QUEUED = QUEUED"
| "DAGRunPatchStates_value PATCH_SUCCESS = SUCCESS"
| "DAGRunPatchStates_value PATCH_FAILED = FAILED"

definition DAGRunPatchStates_members :: "DAGRunPatchStates list" where
  "DAGRunPatchStates_members = [PATCH_QUEUED, PATCH_SUCCESS, PATCH_FAILED]"

text \<open>
  The lookup of a member by value, \<open>DAGRunPatchStates(v)\<close>: the first member, in the
  order of definition, whose value is \<open>v\<close>; \<open>None\<close> where Python raises.
\<close>

definition DAGRunPatchStates_of :: "DagRunState \<Rightarrow> DAGRunPatchStates option" where
  "DAGRunPatchStates_of v =
     find (\<lambda>m. DAGRunPatchStates_value m = v) DAGRunPatchStates_members"

text \<open>
  \<^verbatim>\<open>
  class DAGRunPatchBody(StrictBaseModel):
      state: DAGRunPatchStates | None = None
      note: str | None = Field(None, max_length=1000)
  \<close>
  The body of a PATCH request names a state by its value. (\<open>note\<close> is a keyword of
  Isabelle; the field is \<open>note_text\<close>.)
\<close>

record DAGRunPatchBody_raw =
  raw_state :: "DagRunState field"
  raw_patch_note :: "string field"

record DAGRunPatchBody =
  state :: "DAGRunPatchStates option"
  note_text :: "string option"

definition patch_state_field ::
  "DagRunState field \<Rightarrow> string list + DAGRunPatchStates option" where
  "patch_state_field f =
     (case f of
        Missing \<Rightarrow> Inr None
      | Null \<Rightarrow> Inr None
      | Value v \<Rightarrow>
          (case DAGRunPatchStates_of v of
             None \<Rightarrow> Inl [''state'']
           | Some m \<Rightarrow> Inr (Some m)))"

definition patch_note_field :: "string field \<Rightarrow> string list + string option" where
  "patch_note_field f =
     (case f of
        Missing \<Rightarrow> Inr None
      | Null \<Rightarrow> Inr None
      | Value s \<Rightarrow> if length s \<le> 1000 then Inr (Some s) else Inl [''note''])"

definition validate_DAGRunPatchBody :: "DAGRunPatchBody_raw \<Rightarrow> py_error + DAGRunPatchBody" where
  "validate_DAGRunPatchBody raw =
     (case patch_state_field (raw_state raw) of
        Inl es \<Rightarrow>
          (case patch_note_field (raw_patch_note raw) of
             Inl es' \<Rightarrow> Inl (ValidationError (map FieldInvalid (es @ es')))
           | Inr _ \<Rightarrow> Inl (ValidationError (map FieldInvalid es)))
      | Inr st \<Rightarrow>
          (case patch_note_field (raw_patch_note raw) of
             Inl es' \<Rightarrow> Inl (ValidationError (map FieldInvalid es'))
           | Inr n \<Rightarrow> Inr \<lparr>state = st, note_text = n\<rparr>))"

text \<open>
  Modelled from the spec: which run states are the outcome of a cancellation. The data
  models name no cancelled state. In the spec a cancellation kills the work, and killed work
  is failed (``the instance is killed and failed''), so the run state a cancellation
  leaves is FAILED.
\<close>

definition is_cancellation_outcome :: "DagRunState \<Rightarrow> bool" where
  "is_cancellation_outcome s = (s = FAILED)"

subsection \<open>DAGRunResponse\<close>

text \<open>
  \<^verbatim>\<open>
  class DAGRunResponse(BaseModel):
      dag_run_id: str = Field(validation_alias="run_id")
      dag_id: str
      logical_date: datetime | None
      ...
      run_after: datetime
      ...
      state: DagRunState
  \<close>
  \<open>DagRunType\<close> and \<open>DagRunTriggeredByType\<close> are enums of other modules: type
  parameters here.
\<close>

record ('run_type, 'triggered_by) DAGRunResponse =
  dag_run_id :: string
  dag_id :: string
  logical_date :: "py_datetime option"
  queued_at :: "py_datetime option"
  start_date :: "py_datetime option"
  end_date :: "py_datetime option"
  data_interval_start :: "py_datetime option"
  data_interval_end :: "py_datetime option"
  run_after :: py_datetime
  last_scheduling_decision :: "py_datetime option"
  run_type :: 'run_type
  state :: DagRunState
  external_trigger :: bool
  triggered_by :: 'triggered_by
  conf :: "(string \<times> string) list"
  note_text :: "string option"

subsection \<open>TriggerDAGRunPostBody\<close>


text \<open>The request body of a trigger request, before validation.\<close>

record TriggerDAGRunPostBody_raw =
  raw_dag_run_id :: "string field"
  raw_data_interval_start :: "py_datetime field"
  raw_data_interval_end :: "py_datetime field"
  raw_logical_date :: "py_datetime field"
  raw_run_after :: "py_datetime field"
  raw_conf :: "(string \<times> string) list field"
  raw_note :: "string field"

text \<open>The validated model, one field per attribute of the class.\<close>

record TriggerDAGRunPostBody =
  dag_run_id :: "string option"
  data_interval_start :: "py_datetime option"
  data_interval_end :: "py_datetime option"
  logical_date :: "py_datetime option"
  run_after :: py_datetime
  conf :: "(string \<times> string) list"
  note_text :: "string option"

text \<open>
  Field validation. A field typed \<open>T | None = None\<close> takes a missing key and null as
  \<open>None\<close>; \<open>logical_date: AwareDatetime | None\<close> has no default, so the key is
  required and null is accepted; \<open>run_after\<close> and \<open>conf\<close> have default factories and
  do not accept null. Each function returns the names of the fields in error. The base
  class \<open>StrictBaseModel\<close> rejects keys the class does not declare; the raw record has
  none.
\<close>

definition optional_str :: "string field \<Rightarrow> string option" where
  "optional_str f = (case f of Missing \<Rightarrow> None | Null \<Rightarrow> None | Value s \<Rightarrow> Some s)"

definition optional_aware ::
  "string \<Rightarrow> py_datetime field \<Rightarrow> string list + py_datetime option" where
  "optional_aware name f =
     (case f of
        Missing \<Rightarrow> Inr None
      | Null \<Rightarrow> Inr None
      | Value d \<Rightarrow> if is_aware d then Inr (Some d) else Inl [name])"

definition required_aware ::
  "string \<Rightarrow> py_datetime field \<Rightarrow> string list + py_datetime option" where
  "required_aware name f =
     (case f of
        Missing \<Rightarrow> Inl [name]
      | Null \<Rightarrow> Inr None
      | Value d \<Rightarrow> if is_aware d then Inr (Some d) else Inl [name])"

definition utcnow :: "int \<Rightarrow> py_datetime" where
  "utcnow now = \<lparr>instant = now, utcoffset = Some 0\<rparr>"

definition run_after_field :: "int \<Rightarrow> py_datetime field \<Rightarrow> string list + py_datetime" where
  "run_after_field now f =
     (case f of
        Missing \<Rightarrow> Inr (utcnow now)
      | Null \<Rightarrow> Inl [''run_after'']
      | Value d \<Rightarrow> Inr d)"

definition conf_field ::
  "(string \<times> string) list field \<Rightarrow> string list + (string \<times> string) list" where
  "conf_field f =
     (case f of
        Missing \<Rightarrow> Inr []
      | Null \<Rightarrow> Inl [''conf'']
      | Value c \<Rightarrow> Inr c)"

definition errors_of :: "string list + 'a \<Rightarrow> string list" where
  "errors_of r = (case r of Inl es \<Rightarrow> es | Inr _ \<Rightarrow> [])"

definition value_of :: "string list + 'a \<Rightarrow> 'a \<Rightarrow> 'a" where
  "value_of r d = (case r of Inl _ \<Rightarrow> d | Inr v \<Rightarrow> v)"

definition validate_fields ::
  "int \<Rightarrow> TriggerDAGRunPostBody_raw \<Rightarrow> py_error + TriggerDAGRunPostBody" where
  "validate_fields now raw =
     (let s = optional_aware ''data_interval_start'' (raw_data_interval_start raw);
          e = optional_aware ''data_interval_end'' (raw_data_interval_end raw);
          l = required_aware ''logical_date'' (raw_logical_date raw);
          r = run_after_field now (raw_run_after raw);
          c = conf_field (raw_conf raw);
          errs = errors_of s @ errors_of e @ errors_of l @ errors_of r @ errors_of c
      in if errs \<noteq> [] then Inl (ValidationError (map FieldInvalid errs))
         else Inr \<lparr>dag_run_id = optional_str (raw_dag_run_id raw),
                   data_interval_start = value_of s None,
                   data_interval_end = value_of e None,
                   logical_date = value_of l None,
                   run_after = value_of r (utcnow now),
                   conf = value_of c [],
                   note_text = optional_str (raw_note raw)\<rparr>)"

text \<open>
  \<^verbatim>\<open>
  @model_validator(mode="after")
  def check_data_intervals(cls, values):
      if (values.data_interval_start is None) != (values.data_interval_end is None):
          raise ValueError("Either both ... or both must be None")
      return values
  \<close>
\<close>

definition data_intervals_message :: string where
  "data_intervals_message =
     ''Either both data_interval_start and data_interval_end must be provided or both must be None''"

definition check_data_intervals :: "TriggerDAGRunPostBody \<Rightarrow> py_error + TriggerDAGRunPostBody" where
  "check_data_intervals values =
     (if (data_interval_start values = None) \<noteq> (data_interval_end values = None)
      then Inl (ValueError data_intervals_message)
      else Inr values)"

text \<open>
  \<^verbatim>\<open>
  @model_validator(mode="after")
  def validate_dag_run_id(self):
      if not self.dag_run_id:
          self.dag_run_id = DagRun.generate_run_id(
              run_type=DagRunType.MANUAL, logical_date=self.logical_date, run_after=self.run_after)
      return self
  \<close>
  \<open>DagRun.generate_run_id\<close> belongs to the ORM model \<open>airflow.models.DagRun\<close>;
  here it is the parameter \<open>generate_run_id\<close>, already applied to the run type.
\<close>

definition validate_dag_run_id ::
  "(py_datetime option \<Rightarrow> py_datetime \<Rightarrow> string) \<Rightarrow> TriggerDAGRunPostBody \<Rightarrow> TriggerDAGRunPostBody" where
  "validate_dag_run_id generate_run_id self =
     (if dag_run_id self = None \<or> dag_run_id self = Some []
      then self\<lparr>dag_run_id := Some (generate_run_id (logical_date self) (run_after self))\<rparr>
      else self)"

text \<open>
  Validation of a body: the fields, then the two \<open>after\<close> validators in the order of
  their definition; they run only when the fields are valid. A \<open>ValueError\<close> that a
  validator raises does not reach the caller as it is: Pydantic catches it and raises a
  \<open>ValidationError\<close> that carries it, the class of exception it raises for invalid
  fields too. Other exceptions pass through.
\<close>

fun validator_error :: "py_error \<Rightarrow> py_error" where
  "validator_error (ValueError msg) = ValidationError [ValidatorValueError msg]"
| "validator_error e = e"

definition validate_TriggerDAGRunPostBody ::
  "int \<Rightarrow> (py_datetime option \<Rightarrow> py_datetime \<Rightarrow> string) \<Rightarrow> TriggerDAGRunPostBody_raw
     \<Rightarrow> py_error + TriggerDAGRunPostBody" where
  "validate_TriggerDAGRunPostBody now generate_run_id raw =
     (case validate_fields now raw of
        Inl e \<Rightarrow> Inl e
      | Inr values \<Rightarrow>
          (case check_data_intervals values of
             Inl e \<Rightarrow> Inl (validator_error e)
           | Inr values' \<Rightarrow> Inr (validate_dag_run_id generate_run_id values')))"

text \<open>
  What a request must satisfy for its fields to be valid, and when a field of a request
  gives no value: the vocabulary of the properties of validation.
\<close>

definition is_absent :: "'a field \<Rightarrow> bool" where
  "is_absent f = (case f of Missing \<Rightarrow> True | Null \<Rightarrow> True | Value _ \<Rightarrow> False)"

definition is_naive_value :: "py_datetime field \<Rightarrow> bool" where
  "is_naive_value f = (case f of Missing \<Rightarrow> False | Null \<Rightarrow> False | Value d \<Rightarrow> \<not> is_aware d)"

definition fields_valid :: "TriggerDAGRunPostBody_raw \<Rightarrow> bool" where
  "fields_valid raw =
     (\<not> is_naive_value (raw_data_interval_start raw)
      \<and> \<not> is_naive_value (raw_data_interval_end raw)
      \<and> raw_logical_date raw \<noteq> Missing
      \<and> \<not> is_naive_value (raw_logical_date raw)
      \<and> raw_run_after raw \<noteq> Null
      \<and> raw_conf raw \<noteq> Null)"

section \<open>providers/google/cloud/transfers/sftp\_to\_gcs.py\<close>

subsection \<open>String operations of Python used by the operator\<close>

definition startswith :: "string \<Rightarrow> string \<Rightarrow> bool" where
  "startswith s p = (take (length p) s = p)"

definition lstrip :: "string \<Rightarrow> char \<Rightarrow> string" where
  "lstrip s c = dropWhile (\<lambda>x. x = c) s"

definition rstrip :: "string \<Rightarrow> char \<Rightarrow> string" where
  "rstrip s c = rev (dropWhile (\<lambda>x. x = c) (rev s))"

definition strip :: "string \<Rightarrow> char \<Rightarrow> string" where
  "strip s c = rstrip (lstrip s c) c"

text \<open>\<open>s.split(c, 1)\<close> for a string that contains \<open>c\<close>: the text before and after the first occurrence.\<close>

definition split_once :: "string \<Rightarrow> char \<Rightarrow> string \<times> string" where
  "split_once s c = (takeWhile (\<lambda>x. x \<noteq> c) s, drop 1 (dropWhile (\<lambda>x. x \<noteq> c) s))"

text \<open>
  \<open>s.rsplit(c, 1)[1]\<close>: the text after the last occurrence of \<open>c\<close>; without an
  occurrence the list has one element and the index raises \<open>IndexError\<close>.
\<close>

definition rsplit_once_second :: "string \<Rightarrow> char \<Rightarrow> py_error + string" where
  "rsplit_once_second s c =
     (if c \<in> set s then Inr (rev (takeWhile (\<lambda>x. x \<noteq> c) (rev s))) else Inl IndexError)"

text \<open>\<open>s.replace(old, new, 1)\<close>: the first occurrence of \<open>old\<close>, from the left, is replaced.\<close>

fun replace_first :: "string \<Rightarrow> string \<Rightarrow> string \<Rightarrow> string" where
  "replace_first [] old new = (if old = [] then new else [])"
| "replace_first (x # xs) old new =
     (if take (length old) (x # xs) = old then new @ drop (length old) (x # xs)
      else x # replace_first xs old new)"

text \<open>
  \<open>os.path.dirname\<close> of \<open>posixpath\<close>: the head is the path up to and including the
  last slash, with its trailing slashes removed unless it consists of slashes only.
\<close>

definition dirname :: "string \<Rightarrow> string" where
  "dirname p =
     (let head = rev (dropWhile (\<lambda>x. x \<noteq> CHR ''/'') (rev p))
      in if head \<noteq> [] \<and> head \<noteq> replicate (length head) (CHR ''/'')
         then rstrip head (CHR ''/'') else head)"

text \<open>The decimal digits of a number, as an f-string writes it.\<close>

definition digit_char :: "nat \<Rightarrow> char" where
  "digit_char n = char_of (48 + n)"

function string_of_nat :: "nat \<Rightarrow> string" where
  "string_of_nat n =
     (if n < 10 then [digit_char n] else string_of_nat (n div 10) @ [digit_char (n mod 10)])"
  by pat_completeness auto
termination
  by (relation "measure id") auto

declare string_of_nat.simps [simp del]

subsection \<open>SFTPToGCSOperator\<close>

definition WILDCARD :: char where
  "WILDCARD = CHR ''*''"

record SFTPToGCSOperator =
  source_path :: string
  destination_path :: "string option"
  destination_bucket :: string
  gcp_conn_id :: string
  mime_type :: string
  gzip :: bool
  sftp_conn_id :: string
  move_object :: bool
  impersonation_chain :: "string list option"
  sftp_prefetch :: bool
  use_stream :: bool

text \<open>
  What the operator does on the SFTP server and in the bucket, in the order of the calls:
  listing the tree below a path (\<open>get_tree_map\<close>), streaming a file into a blob,
  retrieving a file to a temporary file, uploading that file, deleting the source.
\<close>

datatype transfer_action =
    GetTreeMap string string string
  | StreamToBlob string string string bool
  | RetrieveFile string bool
  | Upload string string string bool
  | DeleteFile string

text \<open>
  \<^verbatim>\<open>
  @staticmethod
  def _set_destination_path(path: str | None) -> str:
      if path is not None:
          return path.lstrip("/") if path.startswith("/") else path
      return ""

  @staticmethod
  def _set_bucket_name(name: str) -> str:
      bucket = name if not name.startswith("gs://") else name[5:]
      return bucket.strip("/")
  \<close>
\<close>

definition set_destination_path :: "string option \<Rightarrow> string" where
  "set_destination_path path =
     (case path of
        Some p \<Rightarrow> if startswith p ''/'' then lstrip p (CHR ''/'') else p
      | None \<Rightarrow> [])"

definition set_bucket_name :: "string \<Rightarrow> string" where
  "set_bucket_name name =
     (let bucket = (if \<not> startswith name ''gs://'' then name else drop 5 name)
      in strip bucket (CHR ''/''))"

text \<open>
  \<open>_copy_single_object\<close>: a streamed copy, or a download followed by an upload; then the
  source is deleted when \<open>move_object\<close> is set. Logging is left out.
\<close>

definition copy_single_object ::
  "SFTPToGCSOperator \<Rightarrow> string \<Rightarrow> string \<Rightarrow> transfer_action list" where
  "copy_single_object self src destination_object =
     (if use_stream self
      then [StreamToBlob src (destination_bucket self) destination_object (sftp_prefetch self)]
      else [RetrieveFile src (sftp_prefetch self),
            Upload (destination_bucket self) destination_object (mime_type self) (gzip self)])
     @ (if move_object self then [DeleteFile src] else [])"

definition wildcard_message :: "nat \<Rightarrow> string \<Rightarrow> string" where
  "wildcard_message total_wildcards path =
     ''Only one wildcard '' @ [CHR 0x27] @ ''*'' @ [CHR 0x27]
       @ '' is allowed in source_path parameter. Found ''
       @ string_of_nat total_wildcards @ '' in '' @ path @ ''.''"

text \<open>
  The destination of one file found through a wildcard:
  \<^verbatim>\<open>
  destination_path = file.replace(base_path, self.destination_path, 1)
  if not self.destination_path:
      destination_path = destination_path.lstrip("/")
  \<close>
\<close>

definition wildcard_destination :: "string \<Rightarrow> string \<Rightarrow> string \<Rightarrow> string" where
  "wildcard_destination dest base_path file =
     (let destination_path = replace_first file base_path dest
      in if dest = [] then lstrip destination_path (CHR ''/'') else destination_path)"

text \<open>
  \<open>execute\<close>. The SFTP hook's \<open>get_tree_map\<close> is a parameter: it returns the files
  below a path. The result is the operator with its destination normalised, the actions
  performed, and the exception raised, if any. The hooks themselves are taken not to fail.
  \<^verbatim>\<open>
  def execute(self, context):
      self.destination_path = self._set_destination_path(self.destination_path)
      self.destination_bucket = self._set_bucket_name(self.destination_bucket)
      gcs_hook = GCSHook(...)
      if WILDCARD in self.source_path:
          total_wildcards = self.source_path.count(WILDCARD)
          if total_wildcards > 1:
              raise AirflowException(...)
          prefix, delimiter = self.source_path.split(WILDCARD, 1)
          base_path = os.path.dirname(prefix)
          files, _, _ = self.sftp_hook.get_tree_map(base_path, prefix=prefix, delimiter=delimiter)
          for file in files:
              ...
              self._copy_single_object(gcs_hook, self.sftp_hook, file, destination_path)
      else:
          destination_object = (
              self.destination_path if self.destination_path else self.source_path.rsplit("/", 1)[1])
          self._copy_single_object(gcs_hook, self.sftp_hook, self.source_path, destination_object)
  \<close>
\<close>

definition normalise :: "SFTPToGCSOperator \<Rightarrow> SFTPToGCSOperator" where
  "normalise self =
     self\<lparr>destination_path := Some (set_destination_path (destination_path self)),
          destination_bucket := set_bucket_name (destination_bucket self)\<rparr>"

definition execute ::
  "(string \<Rightarrow> string \<Rightarrow> string \<Rightarrow> string list) \<Rightarrow> SFTPToGCSOperator
     \<Rightarrow> SFTPToGCSOperator \<times> transfer_action list \<times> py_error option" where
  "execute get_tree_map self0 =
     (let self = normalise self0;
          dest = set_destination_path (destination_path self0)
      in if WILDCARD \<in> set (source_path self) then
           (let total_wildcards = count_list (source_path self) WILDCARD
            in if total_wildcards > 1
               then (self, [], Some (AirflowException (wildcard_message total_wildcards (source_path self))))
               else
                 (let (prefix, delimiter) = split_once (source_path self) WILDCARD;
                      base_path = dirname prefix;
                      files = get_tree_map base_path prefix delimiter
                  in (self,
                      GetTreeMap base_path prefix delimiter #
                        concat (map (\<lambda>file. copy_single_object self file
                                       (wildcard_destination dest base_path file)) files),
                      None)))
         else
           (case (if dest \<noteq> [] then Inr dest else rsplit_once_second (source_path self) (CHR ''/'')) of
              Inl e \<Rightarrow> (self, [], Some e)
            | Inr destination_object \<Rightarrow>
                (self, copy_single_object self (source_path self) destination_object, None)))"

section \<open>The scheduling core, as the specification describes it\<close>

text \<open>
  The Pool Allocator, the Dependency Evaluator and the DagRun Manager are components of
  the scheduler, whose modules are not among the modules modelled above. Their
  definitions here follow the sentences of the specification, which are quoted.
\<close>

subsection \<open>Pool Allocator\<close>

text \<open>
  Modelled from the spec: a waiter of a pool, missing with the Pool Allocator. ``Denied
  requests are held in a priority-ordered wait set per pool'', with ``ties broken by
  earliest enqueue time'': a waiter has its slots, its priority weight and the time it
  was enqueued.
\<close>

record waiter =
  waiter_slots :: nat
  priority_weight :: int
  enqueued_at :: nat

text \<open>
  Modelled from the spec: the Pool entity, missing with the Pool Allocator. ``Pool: name,
  total slot capacity, slots currently allocated'', and the wait set of the pool. The
  name is the key under which the allocator holds the pool.
\<close>

record pool =
  capacity :: nat
  allocated :: nat
  waiters :: "waiter list"

text \<open>
  Modelled from the spec: the state of the Pool Allocator, which is missing: the named
  pools, and a counter that gives enqueue times.
\<close>

record allocator =
  pools :: "string \<rightharpoonup> pool"
  clock :: nat

datatype acquire_result = Granted | Denied

text \<open>
  Modelled from the spec: the order of the wait set, missing with the Pool Allocator:
  ``the highest-priority waiter (ties broken by earliest enqueue time) is retried first''.
\<close>

definition before :: "waiter \<Rightarrow> waiter \<Rightarrow> bool" where
  "before a b =
     (priority_weight a > priority_weight b
      \<or> priority_weight a = priority_weight b \<and> enqueued_at a \<le> enqueued_at b)"

fun enqueue :: "waiter \<Rightarrow> waiter list \<Rightarrow> waiter list" where
  "enqueue w [] = [w]"
| "enqueue w (x # xs) = (if before x w then x # enqueue w xs else w # x # xs)"

text \<open>
  Modelled from the spec: \<open>try_acquire\<close> of the Pool Allocator, which is missing.
  ``\<open>try_acquire(pool_name, slots, priority_weight) -> granted|denied\<close>''; the request
  is granted when the slots fit into the capacity (``allocated \<open>\<le>\<close> capacity at all
  times, enforced by atomic allocation''), and a denied request is held in the wait set.
  A request for a pool that does not exist is denied.
\<close>

definition try_acquire ::
  "allocator \<Rightarrow> string \<Rightarrow> nat \<Rightarrow> int \<Rightarrow> acquire_result \<times> allocator" where
  "try_acquire a pool_name slots weight =
     (case pools a pool_name of
        None \<Rightarrow> (Denied, a)
      | Some p \<Rightarrow>
          if allocated p + slots \<le> capacity p
          then (Granted, a\<lparr>pools := (pools a)(pool_name \<mapsto> p\<lparr>allocated := allocated p + slots\<rparr>)\<rparr>)
          else (Denied,
                a\<lparr>pools := (pools a)(pool_name \<mapsto>
                       p\<lparr>waiters := enqueue \<lparr>waiter_slots = slots, priority_weight = weight,
                                                enqueued_at = clock a\<rparr> (waiters p)\<rparr>),
                  clock := clock a + 1\<rparr>))"

text \<open>
  Modelled from the spec: the retry of the waiters on a release, missing with the Pool
  Allocator. The waiters are retried in the order of the wait set; one whose slots fit is
  granted and leaves the wait set, the others stay. The result is the new number of
  allocated slots and the waiters that remain.
\<close>

fun retry_waiters :: "nat \<Rightarrow> nat \<Rightarrow> waiter list \<Rightarrow> nat \<times> waiter list" where
  "retry_waiters cap alloc [] = (alloc, [])"
| "retry_waiters cap alloc (w # ws) =
     (if alloc + waiter_slots w \<le> cap
      then retry_waiters cap (alloc + waiter_slots w) ws
      else (let (alloc', rest) = retry_waiters cap alloc ws in (alloc', w # rest)))"

text \<open>
  Modelled from the spec: \<open>release\<close> of the Pool Allocator, which is missing.
  ``\<open>release(pool_name, slots)\<close>'', after which the waiters are retried. Releasing more
  slots than are allocated leaves none allocated.
\<close>

definition release :: "allocator \<Rightarrow> string \<Rightarrow> nat \<Rightarrow> allocator" where
  "release a pool_name slots =
     (case pools a pool_name of
        None \<Rightarrow> a
      | Some p \<Rightarrow>
          (let (alloc', rest) = retry_waiters (capacity p) (allocated p - slots) (waiters p)
           in a\<lparr>pools := (pools a)(pool_name \<mapsto> p\<lparr>allocated := alloc', waiters := rest\<rparr>)\<rparr>))"

text \<open>
  Modelled from the spec: the reconfiguration of a pool, missing with the Pool Allocator.
  ``Pool capacity is reconfigurable at runtime; shrinking capacity below current usage is
  permitted and simply blocks new acquisitions until usage drops.''
\<close>

definition set_capacity :: "allocator \<Rightarrow> string \<Rightarrow> nat \<Rightarrow> allocator" where
  "set_capacity a pool_name cap =
     (case pools a pool_name of
        None \<Rightarrow> a
      | Some p \<Rightarrow> a\<lparr>pools := (pools a)(pool_name \<mapsto> p\<lparr>capacity := cap\<rparr>)\<rparr>)"

text \<open>
  Modelled from the spec: the allocator at its start and its runs, missing with the Pool
  Allocator. Every pool starts with its capacity and no slot allocated. Acquisition and
  release are atomic steps, so an interleaving of the requests of concurrent schedulers
  is a sequence of requests, applied one after the other.
\<close>

definition new_allocator :: "(string \<times> nat) list \<Rightarrow> allocator" where
  "new_allocator config =
     \<lparr>pools = map_of (map (\<lambda>(name, cap). (name, \<lparr>capacity = cap, allocated = 0, waiters = []\<rparr>)) config),
      clock = 0\<rparr>"

datatype pool_request = TryAcquire string nat int | Release string nat

fun apply_request :: "allocator \<Rightarrow> pool_request \<Rightarrow> allocator" where
  "apply_request a (TryAcquire pool_name slots weight) = snd (try_acquire a pool_name slots weight)"
| "apply_request a (Release pool_name slots) = release a pool_name slots"

definition run_requests :: "allocator \<Rightarrow> pool_request list \<Rightarrow> allocator" where
  "run_requests a requests = foldl apply_request a requests"

text \<open>The invariant of the allocator: no pool has more slots allocated than its capacity.\<close>

definition allocator_ok :: "allocator \<Rightarrow> bool" where
  "allocator_ok a = (\<forall>name p. pools a name = Some p \<longrightarrow> allocated p \<le> capacity p)"

subsection \<open>Dependency Evaluator\<close>

text \<open>
  Modelled from the spec: the states of a TaskInstance, missing with the state machine.
  ``States: NONE \<open>\<rightarrow>\<close> SCHEDULED \<open>\<rightarrow>\<close> QUEUED \<open>\<rightarrow>\<close> RUNNING \<open>\<rightarrow>\<close> {SUCCESS, FAILED, UP\_FOR\_RETRY,
  UP\_FOR\_RESCHEDULE, DEFERRED}'', and SKIPPED, UPSTREAM\_FAILED, REMOVED. The prefix
  \<open>TI_\<close> keeps them apart from the states of a DagRun.
\<close>

datatype TaskInstanceState =
    TI_NONE | TI_SCHEDULED | TI_QUEUED | TI_RUNNING | TI_SUCCESS | TI_FAILED
  | TI_UP_FOR_RETRY | TI_UP_FOR_RESCHEDULE | TI_DEFERRED
  | TI_SKIPPED | TI_UPSTREAM_FAILED | TI_REMOVED

text \<open>
  Modelled from the spec: which states are terminal, missing with the state machine.
  ``SKIPPED and UPSTREAM\_FAILED are terminal'', ``REMOVED is terminal'', SUCCESS is a
  terminal state, and FAILED is the state of a failure that is not retried (a failure
  that is retried is UP\_FOR\_RETRY).
\<close>

definition is_terminal :: "TaskInstanceState \<Rightarrow> bool" where
  "is_terminal s = (s \<in> {TI_SUCCESS, TI_FAILED, TI_SKIPPED, TI_UPSTREAM_FAILED, TI_REMOVED})"

text \<open>
  Modelled from the spec: the trigger rules and the results of the Dependency Evaluator,
  which is missing. ``Supported rules: ALL\_SUCCESS, ALL\_FAILED, ALL\_DONE, ONE\_SUCCESS,
  ONE\_FAILED, NONE\_FAILED, NONE\_SKIPPED, ALWAYS.'' ``Output: one of satisfied, pending,
  unsatisfiable.''
\<close>

datatype TriggerRule =
    ALL_SUCCESS | ALL_FAILED | ALL_DONE | ONE_SUCCESS | ONE_FAILED
  | NONE_FAILED | NONE_SKIPPED | ALWAYS

datatype dependency_result = Satisfied | Pending | Unsatisfiable

definition is_failed :: "TaskInstanceState \<Rightarrow> bool" where
  "is_failed s = (s = TI_FAILED \<or> s = TI_UPSTREAM_FAILED)"

text \<open>
  Modelled from the spec: what each rule asks of the upstream states, missing with the
  Dependency Evaluator; the rules are read by their names.
\<close>

fun rule_holds :: "TriggerRule \<Rightarrow> TaskInstanceState list \<Rightarrow> bool" where
  "rule_holds ALL_SUCCESS ups = list_all (\<lambda>s. s = TI_SUCCESS) ups"
| "rule_holds ALL_FAILED ups = list_all is_failed ups"
| "rule_holds ALL_DONE ups = list_all is_terminal ups"
| "rule_holds ONE_SUCCESS ups = list_ex (\<lambda>s. s = TI_SUCCESS) ups"
| "rule_holds ONE_FAILED ups = list_ex is_failed ups"
| "rule_holds NONE_FAILED ups = (list_all is_terminal ups \<and> \<not> list_ex is_failed ups)"
| "rule_holds NONE_SKIPPED ups = (list_all is_terminal ups \<and> \<not> list_ex (\<lambda>s. s = TI_SKIPPED) ups)"
| "rule_holds ALWAYS ups = True"

text \<open>
  Modelled from the spec: when a rule cannot hold any more, missing with the Dependency
  Evaluator. ``unsatisfiable (terminal upstream states make the rule permanently false,
  e.g. required success missing)''.
\<close>

fun rule_lost :: "TriggerRule \<Rightarrow> TaskInstanceState list \<Rightarrow> bool" where
  "rule_lost ALL_SUCCESS ups = list_ex (\<lambda>s. is_terminal s \<and> s \<noteq> TI_SUCCESS) ups"
| "rule_lost ALL_FAILED ups = list_ex (\<lambda>s. is_terminal s \<and> \<not> is_failed s) ups"
| "rule_lost ALL_DONE ups = False"
| "rule_lost ONE_SUCCESS ups = (list_all is_terminal ups \<and> \<not> list_ex (\<lambda>s. s = TI_SUCCESS) ups)"
| "rule_lost ONE_FAILED ups = (list_all is_terminal ups \<and> \<not> list_ex is_failed ups)"
| "rule_lost NONE_FAILED ups = list_ex is_failed ups"
| "rule_lost NONE_SKIPPED ups = list_ex (\<lambda>s. s = TI_SKIPPED) ups"
| "rule_lost ALWAYS ups = False"

text \<open>
  Modelled from the spec: the Dependency Evaluator, which is missing. ``Input: a task
  node's trigger rule and the states of its direct upstream TaskInstances. Output: one of
  satisfied, pending (some upstream not yet terminal), unsatisfiable.'' ``Nodes with no
  upstream are always satisfied.''
\<close>

definition evaluate_dependencies :: "TriggerRule \<Rightarrow> TaskInstanceState list \<Rightarrow> dependency_result" where
  "evaluate_dependencies rule upstream_states =
     (if upstream_states = [] then Satisfied
      else if rule_holds rule upstream_states then Satisfied
      else if rule_lost rule upstream_states then Unsatisfiable
      else Pending)"

subsection \<open>DagRun Manager\<close>

text \<open>
  Modelled from the spec: a node of a DAG, missing with the DAG definition. ``Each node
  has: identifier, upstream/downstream edges, trigger rule, pool assignment, priority
  weight, retry count''. The downstream edges are the upstream edges of the other nodes.
\<close>

record task_node =
  node_id :: string
  upstream :: "string list"
  trigger_rule :: TriggerRule
  node_pool :: string
  node_priority_weight :: int
  retries :: nat



text \<open>
  Modelled from the spec: a TaskInstance, missing with the state machine. ``Identified by
  (run identifier, task identifier, attempt number)'', with its state.
\<close>

record TaskInstance =
  ti_run_identifier :: string
  task_identifier :: string
  attempt_number :: nat
  ti_state :: TaskInstanceState






subsection \<open>The dependencies of a node\<close>

text \<open>
  Modelled from the spec: the input of the Dependency Evaluator for a node of a run,
  missing with the scheduler loop: ``the states of its direct upstream TaskInstances''.
  An upstream node without an instance yet counts as NONE.
\<close>

definition upstream_states :: "TaskInstance list \<Rightarrow> task_node \<Rightarrow> TaskInstanceState list" where
  "upstream_states task_instances n =
     map (\<lambda>u. case find (\<lambda>ti. task_identifier ti = u) task_instances of
                None \<Rightarrow> TI_NONE
              | Some ti \<Rightarrow> ti_state ti)
       (upstream n)"

definition node_dependencies :: "TaskInstance list \<Rightarrow> task_node \<Rightarrow> dependency_result" where
  "node_dependencies task_instances n =
     evaluate_dependencies (trigger_rule n) (upstream_states task_instances n)"

section \<open>Concrete inputs\<close>

text \<open>Requests and records at which the properties below are evaluated.\<close>

definition patch_success :: DAGRunPatchBody_raw where
  "patch_success = \<lparr>raw_state = Value SUCCESS, raw_patch_note = Missing\<rparr>"

definition response_example :: "(unit, unit) DAGRunResponse" where
  "response_example =
     \<lparr>DAGRunResponse.dag_run_id = ''run_1'', dag_id = ''dag_1'',
      DAGRunResponse.logical_date = None, queued_at = None, start_date = None, end_date = None,
      DAGRunResponse.data_interval_start = None, DAGRunResponse.data_interval_end = None,
      DAGRunResponse.run_after = utcnow 1700000000, last_scheduling_decision = None,
      run_type = (), state = RUNNING, external_trigger = True, triggered_by = (),
      DAGRunResponse.conf = [], DAGRunResponse.note_text = None\<rparr>"

definition patch_running :: DAGRunPatchBody_raw where
  "patch_running = \<lparr>raw_state = Value RUNNING, raw_patch_note = Missing\<rparr>"

definition fixed_run_id :: "py_datetime option \<Rightarrow> py_datetime \<Rightarrow> string" where
  "fixed_run_id ld ra = ''manual__generated''"

definition trigger_null_logical_date :: TriggerDAGRunPostBody_raw where
  "trigger_null_logical_date =
     \<lparr>raw_dag_run_id = Value ''run_1'', raw_data_interval_start = Missing,
      raw_data_interval_end = Missing, raw_logical_date = Null, raw_run_after = Missing,
      raw_conf = Missing, raw_note = Missing\<rparr>"

definition body_null_logical_date :: TriggerDAGRunPostBody where
  "body_null_logical_date =
     \<lparr>dag_run_id = Some ''run_1'', data_interval_start = None, data_interval_end = None,
      logical_date = None, run_after = utcnow 1700000000, conf = [], note_text = None\<rparr>"

definition trigger_half_interval :: TriggerDAGRunPostBody_raw where
  "trigger_half_interval =
     trigger_null_logical_date\<lparr>raw_data_interval_start := Value \<lparr>instant = 5, utcoffset = Some 0\<rparr>\<rparr>"

definition body_no_interval :: TriggerDAGRunPostBody where
  "body_no_interval =
     \<lparr>dag_run_id = Some ''manual_1'', data_interval_start = None, data_interval_end = None,
      logical_date = None, run_after = \<lparr>instant = 0, utcoffset = Some 0\<rparr>, conf = [],
      note_text = None\<rparr>"

definition body_half_interval :: TriggerDAGRunPostBody where
  "body_half_interval =
     body_no_interval\<lparr>data_interval_start := Some \<lparr>instant = 5, utcoffset = Some 0\<rparr>\<rparr>"

definition list_two_files :: "string \<Rightarrow> string \<Rightarrow> string \<Rightarrow> string list" where
  "list_two_files base_path prefix delimiter = [base_path @ ''/a.csv'', base_path @ ''/b.csv'']"

definition operator_example :: SFTPToGCSOperator where
  "operator_example =
     \<lparr>source_path = ''/data/*.csv'', destination_path = Some ''/in'',
      destination_bucket = ''gs://bucket/'', gcp_conn_id = ''google_cloud_default'',
      mime_type = ''application/octet-stream'', gzip = False, sftp_conn_id = ''ssh_default'',
      move_object = False, impersonation_chain = None, sftp_prefetch = True,
      use_stream = False\<rparr>"

definition operator_two_wildcards :: SFTPToGCSOperator where
  "operator_two_wildcards = operator_example\<lparr>source_path := ''/data/*/x*.csv''\<rparr>"

definition two_pools :: "(string \<times> nat) list" where
  "two_pools = [(''default'', 2), (''small'', 1)]"

definition requests_example :: "pool_request list" where
  "requests_example =
     [TryAcquire ''default'' 2 1, TryAcquire ''default'' 1 5, TryAcquire ''default'' 1 9,
      Release ''default'' 1]"


text \<open>The DAG A \<open>\<rightarrow>\<close> B \<open>\<rightarrow>\<close> C of the scenario in the specification, and a run of it.\<close>

definition node_a :: task_node where
  "node_a = \<lparr>node_id = ''A'', upstream = [], trigger_rule = ONE_SUCCESS,
             node_pool = ''default'', node_priority_weight = 1, retries = 0\<rparr>"







definition instances_abc :: "TaskInstance list" where
  "instances_abc =
     [\<lparr>ti_run_identifier = ''run_1'', task_identifier = ''A'', attempt_number = 1, ti_state = TI_SUCCESS\<rparr>,
      \<lparr>ti_run_identifier = ''run_1'', task_identifier = ''B'', attempt_number = 1, ti_state = TI_FAILED\<rparr>,
      \<lparr>ti_run_identifier = ''run_1'', task_identifier = ''C'', attempt_number = 1, ti_state = TI_UPSTREAM_FAILED\<rparr>]"

section \<open>Properties\<close>

subsection \<open>The states of a DagRun and of a PATCH request\<close>

lemma DAGRunPatchStates_of_simps:
  "DAGRunPatchStates_of QUEUED = Some PATCH_QUEUED"
  "DAGRunPatchStates_of SUCCESS = Some PATCH_SUCCESS"
  "DAGRunPatchStates_of FAILED = Some PATCH_FAILED"
  "DAGRunPatchStates_of RUNNING = None"
  by (simp_all add: DAGRunPatchStates_of_def DAGRunPatchStates_members_def)

lemma DAGRunPatchStates_of_Some:
  "DAGRunPatchStates_of v = Some m \<Longrightarrow> DAGRunPatchStates_value m = v \<and> v \<noteq> RUNNING"
  by (cases v) (auto simp: DAGRunPatchStates_of_simps)

lemma DAGRunPatchStates_value_range:
  "range DAGRunPatchStates_value = {QUEUED, SUCCESS, FAILED}"
proof
  show "range DAGRunPatchStates_value \<subseteq> {QUEUED, SUCCESS, FAILED}"
  proof
    fix v assume "v \<in> range DAGRunPatchStates_value"
    then obtain m where "v = DAGRunPatchStates_value m" by auto
    then show "v \<in> {QUEUED, SUCCESS, FAILED}" by (cases m) simp_all
  qed
  have "QUEUED = DAGRunPatchStates_value PATCH_QUEUED"
    "SUCCESS = DAGRunPatchStates_value PATCH_SUCCESS"
    "FAILED = DAGRunPatchStates_value PATCH_FAILED" by simp_all
  then show "{QUEUED, SUCCESS, FAILED} \<subseteq> range DAGRunPatchStates_value"
    by (metis empty_subsetI insert_subset rangeI)
qed

lemma validate_patch_state:
  assumes "validate_DAGRunPatchBody raw = Inr b"
  shows "DAGRunPatchBody.state b =
           (case raw_state raw of Value v \<Rightarrow> DAGRunPatchStates_of v | _ \<Rightarrow> None)"
  using assms
  by (auto simp: validate_DAGRunPatchBody_def patch_state_field_def
      split: sum.splits field.splits option.splits)

lemma validate_patch_carries:
  assumes "validate_DAGRunPatchBody raw = Inr b" and "DAGRunPatchBody.state b = Some m"
  shows "raw_state raw = Value (DAGRunPatchStates_value m) \<and> DAGRunPatchStates_value m \<noteq> RUNNING"
proof (cases "raw_state raw")
  case (Value v)
  with validate_patch_state [OF assms(1)] assms(2)
  have "DAGRunPatchStates_of v = Some m" by simp
  with Value show ?thesis using DAGRunPatchStates_of_Some by blast
next
  case Missing
  with validate_patch_state [OF assms(1)] assms(2) show ?thesis by simp
next
  case Null
  with validate_patch_state [OF assms(1)] assms(2) show ?thesis by simp
qed

lemma validate_patch_state_only:
  "validate_DAGRunPatchBody \<lparr>raw_state = Value v, raw_patch_note = Missing\<rparr> =
     (case DAGRunPatchStates_of v of
        None \<Rightarrow> Inl (ValidationError [FieldInvalid ''state''])
      | Some m \<Rightarrow> Inr \<lparr>DAGRunPatchBody.state = Some m, DAGRunPatchBody.note_text = None\<rparr>)"
  by (simp add: validate_DAGRunPatchBody_def patch_state_field_def patch_note_field_def
      split: option.splits)

lemma dag_run_state_cases: "(s :: DagRunState) \<in> {QUEUED, RUNNING, SUCCESS, FAILED}"
  by (cases s) simp_all

text \<open>
  C3. The state of a DagRun, as a response carries it, is one of QUEUED, RUNNING, SUCCESS,
  FAILED. The values of the states a PATCH body can carry are exactly QUEUED, SUCCESS and
  FAILED, all among those four: a validated body that carries a state was sent one of the
  three, and a body naming a state is accepted exactly when it names one of the three.
\<close>

theorem dag_run_state_domain:
  "DAGRunResponse.state (r :: ('rt, 'tb) DAGRunResponse) \<in> {QUEUED, RUNNING, SUCCESS, FAILED}
   \<and> range DAGRunPatchStates_value = {QUEUED, SUCCESS, FAILED}
   \<and> range DAGRunPatchStates_value \<subseteq> {QUEUED, RUNNING, SUCCESS, FAILED}
   \<and> (validate_DAGRunPatchBody raw = Inr b \<and> DAGRunPatchBody.state b = Some m \<longrightarrow>
        raw_state raw = Value (DAGRunPatchStates_value m)
        \<and> DAGRunPatchStates_value m \<in> {QUEUED, SUCCESS, FAILED})
   \<and> ((\<exists>b'. validate_DAGRunPatchBody \<lparr>raw_state = Value v, raw_patch_note = Missing\<rparr> = Inr b')
        \<longleftrightarrow> v \<in> {QUEUED, SUCCESS, FAILED})"
proof -
  have a: "DAGRunResponse.state r \<in> {QUEUED, RUNNING, SUCCESS, FAILED}"
    by (rule dag_run_state_cases)
  have b: "range DAGRunPatchStates_value = {QUEUED, SUCCESS, FAILED}"
    by (rule DAGRunPatchStates_value_range)
  have c: "range DAGRunPatchStates_value \<subseteq> {QUEUED, RUNNING, SUCCESS, FAILED}"
    unfolding b by simp
  have d: "validate_DAGRunPatchBody raw = Inr b \<and> DAGRunPatchBody.state b = Some m \<longrightarrow>
        raw_state raw = Value (DAGRunPatchStates_value m)
        \<and> DAGRunPatchStates_value m \<in> {QUEUED, SUCCESS, FAILED}"
    using validate_patch_carries [of raw b m] b by auto
  have e: "(\<exists>b'. validate_DAGRunPatchBody \<lparr>raw_state = Value v, raw_patch_note = Missing\<rparr> = Inr b')
        \<longleftrightarrow> v \<in> {QUEUED, SUCCESS, FAILED}"
    by (cases v) (simp_all add: validate_patch_state_only DAGRunPatchStates_of_simps)
  from a b c d e show ?thesis by (intro conjI)
qed

lemma validate_patch_success:
  "validate_DAGRunPatchBody patch_success = Inr \<lparr>DAGRunPatchBody.state = Some PATCH_SUCCESS, DAGRunPatchBody.note_text = None\<rparr>"
  by (simp add: patch_success_def validate_patch_state_only DAGRunPatchStates_of_simps)

theorem dag_run_state_domain_witness:
  "validate_DAGRunPatchBody patch_success = Inr \<lparr>DAGRunPatchBody.state = Some PATCH_SUCCESS, DAGRunPatchBody.note_text = None\<rparr>
   \<and> raw_state patch_success = Value SUCCESS
   \<and> SUCCESS \<in> {QUEUED, SUCCESS, FAILED}
   \<and> (\<nexists>b'. validate_DAGRunPatchBody \<lparr>raw_state = Value RUNNING, raw_patch_note = Missing\<rparr> = Inr b')"
proof -
  note t = dag_run_state_domain [of response_example patch_success "\<lparr>DAGRunPatchBody.state = Some PATCH_SUCCESS, DAGRunPatchBody.note_text = None\<rparr>"
      PATCH_SUCCESS RUNNING]
  have "raw_state patch_success = Value SUCCESS"
    using t validate_patch_success by simp
  moreover have "\<nexists>b'. validate_DAGRunPatchBody \<lparr>raw_state = Value RUNNING, raw_patch_note = Missing\<rparr> = Inr b'"
    using t by simp
  ultimately show ?thesis using validate_patch_success by simp
qed

text \<open>
  C1, as stated, fails: a PATCH body that asks for SUCCESS is valid, and SUCCESS is not the
  outcome of a cancellation.
\<close>

theorem patch_state_not_cancellation_counterexample:
  "validate_DAGRunPatchBody patch_success = Inr \<lparr>DAGRunPatchBody.state = Some PATCH_SUCCESS, DAGRunPatchBody.note_text = None\<rparr>
   \<and> DAGRunPatchStates_value PATCH_SUCCESS = SUCCESS
   \<and> \<not> is_cancellation_outcome SUCCESS"
  by (simp add: validate_patch_success is_cancellation_outcome_def)

text \<open>
  C1, amended. An external PATCH request may ask for a DagRun state directly: a validated
  body carries no state, or QUEUED, SUCCESS or FAILED as the request named it; each of
  the three is accepted, and a request naming RUNNING is rejected.
\<close>

theorem patch_requested_state:
  "(validate_DAGRunPatchBody raw = Inr b \<longrightarrow>
      DAGRunPatchBody.state b = None
      \<or> DAGRunPatchBody.state b = Some PATCH_QUEUED \<and> raw_state raw = Value QUEUED
      \<or> DAGRunPatchBody.state b = Some PATCH_SUCCESS \<and> raw_state raw = Value SUCCESS
      \<or> DAGRunPatchBody.state b = Some PATCH_FAILED \<and> raw_state raw = Value FAILED)
   \<and> (raw_state raw = Value RUNNING \<longrightarrow> (\<exists>errs. validate_DAGRunPatchBody raw = Inl (ValidationError errs)))
   \<and> validate_DAGRunPatchBody \<lparr>raw_state = Value QUEUED, raw_patch_note = Missing\<rparr>
        = Inr \<lparr>DAGRunPatchBody.state = Some PATCH_QUEUED, DAGRunPatchBody.note_text = None\<rparr>
   \<and> validate_DAGRunPatchBody \<lparr>raw_state = Value SUCCESS, raw_patch_note = Missing\<rparr>
        = Inr \<lparr>DAGRunPatchBody.state = Some PATCH_SUCCESS, DAGRunPatchBody.note_text = None\<rparr>
   \<and> validate_DAGRunPatchBody \<lparr>raw_state = Value FAILED, raw_patch_note = Missing\<rparr>
        = Inr \<lparr>DAGRunPatchBody.state = Some PATCH_FAILED, DAGRunPatchBody.note_text = None\<rparr>"
proof -
  have a: "validate_DAGRunPatchBody raw = Inr b \<longrightarrow>
      DAGRunPatchBody.state b = None
      \<or> DAGRunPatchBody.state b = Some PATCH_QUEUED \<and> raw_state raw = Value QUEUED
      \<or> DAGRunPatchBody.state b = Some PATCH_SUCCESS \<and> raw_state raw = Value SUCCESS
      \<or> DAGRunPatchBody.state b = Some PATCH_FAILED \<and> raw_state raw = Value FAILED"
  proof
    assume ok: "validate_DAGRunPatchBody raw = Inr b"
    show "DAGRunPatchBody.state b = None
      \<or> DAGRunPatchBody.state b = Some PATCH_QUEUED \<and> raw_state raw = Value QUEUED
      \<or> DAGRunPatchBody.state b = Some PATCH_SUCCESS \<and> raw_state raw = Value SUCCESS
      \<or> DAGRunPatchBody.state b = Some PATCH_FAILED \<and> raw_state raw = Value FAILED"
    proof (cases "DAGRunPatchBody.state b")
      case None
      then show ?thesis by simp
    next
      case (Some m)
      with validate_patch_carries [OF ok] show ?thesis by (cases m) simp_all
    qed
  qed
  have b: "raw_state raw = Value RUNNING \<longrightarrow> (\<exists>errs. validate_DAGRunPatchBody raw = Inl (ValidationError errs))"
    by (simp add: validate_DAGRunPatchBody_def patch_state_field_def DAGRunPatchStates_of_simps
        split: sum.splits)
  show ?thesis
    using a b by (simp add: validate_patch_state_only DAGRunPatchStates_of_simps)
qed

theorem patch_requested_state_witness:
  "validate_DAGRunPatchBody patch_success = Inr \<lparr>DAGRunPatchBody.state = Some PATCH_SUCCESS, DAGRunPatchBody.note_text = None\<rparr>
   \<and> raw_state patch_success = Value SUCCESS
   \<and> raw_state patch_running = Value RUNNING
   \<and> (\<exists>errs. validate_DAGRunPatchBody patch_running = Inl (ValidationError errs))"
proof -
  have r: "raw_state patch_running = Value RUNNING" by (simp add: patch_running_def)
  with patch_requested_state [of patch_running undefined]
  have "\<exists>errs. validate_DAGRunPatchBody patch_running = Inl (ValidationError errs)" by simp
  moreover have "raw_state patch_success = Value SUCCESS"
    using patch_requested_state [of patch_success "\<lparr>DAGRunPatchBody.state = Some PATCH_SUCCESS, DAGRunPatchBody.note_text = None\<rparr>"]
      validate_patch_success by simp
  ultimately show ?thesis using r validate_patch_success by simp
qed

subsection \<open>Trigger requests\<close>

lemma validate_fields_ok:
  "validate_fields now raw = Inr v \<Longrightarrow>
     validate_TriggerDAGRunPostBody now g raw =
       (case check_data_intervals v of
          Inl e \<Rightarrow> Inl (validator_error e)
        | Inr v' \<Rightarrow> Inr (validate_dag_run_id g v'))"
  by (simp add: validate_TriggerDAGRunPostBody_def)

lemma validate_fields_error:
  "validate_fields now raw = Inl e \<Longrightarrow> \<exists>errs. e = ValidationError errs"
  by (auto simp: validate_fields_def Let_def split: if_splits)

lemma validate_fields_logical_date:
  assumes "validate_fields now raw = Inr v"
  shows "raw_logical_date raw \<noteq> Missing"
    and "logical_date v = (case raw_logical_date raw of Value d \<Rightarrow> Some d | _ \<Rightarrow> None)"
  using assms
  by (auto simp: validate_fields_def Let_def required_aware_def errors_of_def value_of_def
      split: if_splits field.splits sum.splits)

lemma validate_fields_run_after:
  assumes "validate_fields now raw = Inr v"
  shows "raw_run_after raw \<noteq> Null"
    and "run_after v = (case raw_run_after raw of Value d \<Rightarrow> d | _ \<Rightarrow> utcnow now)"
  using assms
  by (auto simp: validate_fields_def Let_def run_after_field_def errors_of_def value_of_def
      split: if_splits field.splits sum.splits)

lemma validate_keeps_dates:
  assumes "validate_TriggerDAGRunPostBody now g raw = Inr b"
  shows "\<exists>v. validate_fields now raw = Inr v \<and> logical_date b = logical_date v \<and> run_after b = run_after v"
  using assms
  by (auto simp: validate_TriggerDAGRunPostBody_def check_data_intervals_def validate_dag_run_id_def
      split: sum.splits if_splits)

text \<open>
  C7, amended. A trigger request must carry the key \<open>logical_date\<close>, and its value may be
  null: the validated body has the logical date of the request, \<open>None\<close> for null. The
  run-after timestamp is never null: it is the one given, or the current time.
\<close>

theorem trigger_logical_date_nullable:
  assumes "validate_TriggerDAGRunPostBody now generate_run_id raw = Inr b"
  shows "raw_logical_date raw \<noteq> Missing
       \<and> logical_date b = (case raw_logical_date raw of Value d \<Rightarrow> Some d | _ \<Rightarrow> None)
       \<and> raw_run_after raw \<noteq> Null
       \<and> run_after b = (case raw_run_after raw of Value d \<Rightarrow> d | _ \<Rightarrow> utcnow now)"
proof -
  from assms obtain v where v: "validate_fields now raw = Inr v"
    and eq: "logical_date b = logical_date v" "run_after b = run_after v"
    using validate_keeps_dates by blast
  show ?thesis
    using validate_fields_logical_date [OF v] validate_fields_run_after [OF v] eq by simp
qed

lemma validate_null_logical_date:
  "validate_TriggerDAGRunPostBody 1700000000 fixed_run_id trigger_null_logical_date
     = Inr body_null_logical_date"
  by (simp add: validate_TriggerDAGRunPostBody_def validate_fields_def Let_def
      trigger_null_logical_date_def body_null_logical_date_def optional_aware_def
      required_aware_def run_after_field_def conf_field_def errors_of_def value_of_def
      optional_str_def check_data_intervals_def validate_dag_run_id_def)

text \<open>
  C7, as stated, fails: a trigger request whose logical date is null is valid, and the
  validated body has no logical date.
\<close>

theorem trigger_logical_date_null_counterexample:
  "validate_TriggerDAGRunPostBody 1700000000 fixed_run_id trigger_null_logical_date
     = Inr body_null_logical_date
   \<and> logical_date body_null_logical_date = None"
  by (simp add: validate_null_logical_date) (simp add: body_null_logical_date_def)

theorem trigger_logical_date_nullable_witness:
  "validate_TriggerDAGRunPostBody 1700000000 fixed_run_id trigger_null_logical_date
     = Inr body_null_logical_date
   \<and> raw_logical_date trigger_null_logical_date \<noteq> Missing
   \<and> logical_date body_null_logical_date = None
   \<and> run_after body_null_logical_date = utcnow 1700000000"
  using trigger_logical_date_nullable [OF validate_null_logical_date] validate_null_logical_date
  by (simp add: trigger_null_logical_date_def)

lemma validate_fields_error_fields:
  assumes "validate_fields now raw = Inl e"
  shows "\<exists>errs. e = ValidationError (map FieldInvalid errs)"
  using assms unfolding validate_fields_def Let_def
  by (auto simp del: map_append split: if_splits)

lemma validate_fields_valid_iff:
  "(\<exists>v. validate_fields now raw = Inr v) \<longleftrightarrow> fields_valid raw"
  by (cases "raw_data_interval_start raw"; cases "raw_data_interval_end raw";
      cases "raw_logical_date raw"; cases "raw_run_after raw"; cases "raw_conf raw")
    (simp_all add: validate_fields_def Let_def fields_valid_def is_naive_value_def
      optional_aware_def required_aware_def run_after_field_def conf_field_def errors_of_def)

lemma validate_fields_intervals:
  assumes "validate_fields now raw = Inr v"
  shows "(data_interval_start v = None) = is_absent (raw_data_interval_start raw)"
    and "(data_interval_end v = None) = is_absent (raw_data_interval_end raw)"
  using assms
  by (auto simp: validate_fields_def Let_def optional_aware_def errors_of_def value_of_def
      is_absent_def split: if_splits field.splits)

lemma validate_half_interval_iff:
  "validate_TriggerDAGRunPostBody now g raw
     = Inl (ValidationError [ValidatorValueError data_intervals_message]) \<longleftrightarrow>
   fields_valid raw
   \<and> is_absent (raw_data_interval_start raw) \<noteq> is_absent (raw_data_interval_end raw)"
proof (cases "validate_fields now raw")
  case (Inl e)
  then have "\<not> fields_valid raw"
    using validate_fields_valid_iff [of now raw] by simp
  moreover from Inl obtain errs where "e = ValidationError (map FieldInvalid errs)"
    using validate_fields_error_fields by blast
  then have "e \<noteq> ValidationError [ValidatorValueError data_intervals_message]"
    by (cases errs) auto
  ultimately show ?thesis using Inl
    by (simp add: validate_TriggerDAGRunPostBody_def)
next
  case (Inr v)
  then have "fields_valid raw"
    using validate_fields_valid_iff [of now raw] by blast
  with Inr validate_fields_intervals [OF Inr] show ?thesis
    by (simp add: validate_fields_ok check_data_intervals_def)
qed

lemma validate_whole_interval:
  assumes "fields_valid raw"
    and "is_absent (raw_data_interval_start raw) = is_absent (raw_data_interval_end raw)"
  shows "\<exists>b. validate_TriggerDAGRunPostBody now g raw = Inr b"
proof -
  from assms(1) obtain v where v: "validate_fields now raw = Inr v"
    using validate_fields_valid_iff [of now raw] by blast
  with assms(2) validate_fields_intervals [OF v] show ?thesis
    by (simp add: validate_fields_ok check_data_intervals_def)
qed

lemma validate_never_bare_ValueError:
  "validate_TriggerDAGRunPostBody now g raw \<noteq> Inl (ValueError m)"
proof (cases "validate_fields now raw")
  case (Inl e)
  then have "\<exists>errs. e = ValidationError errs"
    by (rule validate_fields_error)
  with Inl show ?thesis
    by (auto simp: validate_TriggerDAGRunPostBody_def)
next
  case (Inr v)
  then show ?thesis
    by (simp add: validate_fields_ok check_data_intervals_def)
qed

text \<open>
  C8. \<open>check_data_intervals\<close> raises exactly when one of \<open>data_interval_start\<close> and
  \<open>data_interval_end\<close> is \<open>None\<close> and the other is not, and what it raises is the
  \<open>ValueError\<close>; when both are given or both are \<open>None\<close> it returns the body as it got
  it. For a whole trigger request: validation fails with the \<open>ValidationError\<close> that
  carries this \<open>ValueError\<close> exactly when the fields of the request are valid and one of
  the two interval fields of the request gives a value and the other gives none; when the
  fields are valid and both or neither give a value, the request is accepted; and the
  \<open>ValueError\<close> never reaches the caller unwrapped.
\<close>

theorem check_data_intervals_raises_iff:
  "((\<exists>e. check_data_intervals values = Inl e) \<longleftrightarrow>
      (data_interval_start values = None) \<noteq> (data_interval_end values = None))
   \<and> (\<forall>e. check_data_intervals values = Inl e \<longrightarrow> e = ValueError data_intervals_message)
   \<and> ((data_interval_start values = None) = (data_interval_end values = None) \<longrightarrow>
        check_data_intervals values = Inr values)
   \<and> (validate_TriggerDAGRunPostBody now generate_run_id raw
          = Inl (ValidationError [ValidatorValueError data_intervals_message]) \<longleftrightarrow>
        fields_valid raw
        \<and> is_absent (raw_data_interval_start raw) \<noteq> is_absent (raw_data_interval_end raw))
   \<and> (fields_valid raw
        \<and> is_absent (raw_data_interval_start raw) = is_absent (raw_data_interval_end raw) \<longrightarrow>
        (\<exists>b. validate_TriggerDAGRunPostBody now generate_run_id raw = Inr b))
   \<and> (\<forall>m. validate_TriggerDAGRunPostBody now generate_run_id raw \<noteq> Inl (ValueError m))"
proof -
  have validator: "((\<exists>e. check_data_intervals values = Inl e) \<longleftrightarrow>
      (data_interval_start values = None) \<noteq> (data_interval_end values = None))
   \<and> (\<forall>e. check_data_intervals values = Inl e \<longrightarrow> e = ValueError data_intervals_message)
   \<and> ((data_interval_start values = None) = (data_interval_end values = None) \<longrightarrow>
        check_data_intervals values = Inr values)"
    by (simp add: check_data_intervals_def)
  have accepted: "fields_valid raw
        \<and> is_absent (raw_data_interval_start raw) = is_absent (raw_data_interval_end raw) \<longrightarrow>
        (\<exists>b. validate_TriggerDAGRunPostBody now generate_run_id raw = Inr b)"
    using validate_whole_interval [of raw now generate_run_id] by simp
  have wrapped: "\<forall>m. validate_TriggerDAGRunPostBody now generate_run_id raw \<noteq> Inl (ValueError m)"
    by (simp add: validate_never_bare_ValueError)
  from validator validate_half_interval_iff [of now generate_run_id raw] accepted wrapped
  show ?thesis by (intro conjI) (elim conjE, assumption)+
qed

lemma trigger_half_interval_valid:
  "fields_valid trigger_half_interval
   \<and> is_absent (raw_data_interval_start trigger_half_interval)
       \<noteq> is_absent (raw_data_interval_end trigger_half_interval)"
  by (simp add: trigger_half_interval_def trigger_null_logical_date_def fields_valid_def
      is_naive_value_def is_absent_def is_aware_def)

theorem check_data_intervals_raises_iff_witness:
  "check_data_intervals body_half_interval = Inl (ValueError data_intervals_message)
   \<and> check_data_intervals body_no_interval = Inr body_no_interval
   \<and> validate_TriggerDAGRunPostBody 1700000000 fixed_run_id trigger_half_interval
       = Inl (ValidationError [ValidatorValueError data_intervals_message])
   \<and> (\<exists>b. validate_TriggerDAGRunPostBody 1700000000 fixed_run_id trigger_null_logical_date = Inr b)"
proof -
  have both: "(data_interval_start body_no_interval = None) = (data_interval_end body_no_interval = None)"
    by (simp add: body_no_interval_def)
  have one: "(data_interval_start body_half_interval = None) \<noteq> (data_interval_end body_half_interval = None)"
    by (simp add: body_half_interval_def body_no_interval_def)
  have neither: "fields_valid trigger_null_logical_date
      \<and> is_absent (raw_data_interval_start trigger_null_logical_date)
          = is_absent (raw_data_interval_end trigger_null_logical_date)"
    by (simp add: trigger_null_logical_date_def fields_valid_def is_naive_value_def is_absent_def)
  note no = check_data_intervals_raises_iff
      [of body_no_interval 1700000000 fixed_run_id trigger_null_logical_date]
  note half = check_data_intervals_raises_iff
      [of body_half_interval 1700000000 fixed_run_id trigger_half_interval]
  from no both have accepted: "check_data_intervals body_no_interval = Inr body_no_interval"
    by (elim conjE) simp
  from half one obtain e where e: "check_data_intervals body_half_interval = Inl e"
    by (elim conjE) auto
  with half have "e = ValueError data_intervals_message"
    by (elim conjE) simp
  with e have raised: "check_data_intervals body_half_interval = Inl (ValueError data_intervals_message)"
    by simp
  from half trigger_half_interval_valid
  have request: "validate_TriggerDAGRunPostBody 1700000000 fixed_run_id trigger_half_interval
       = Inl (ValidationError [ValidatorValueError data_intervals_message])"
    by (elim conjE) simp
  from no neither
  have whole: "\<exists>b. validate_TriggerDAGRunPostBody 1700000000 fixed_run_id trigger_null_logical_date = Inr b"
    by (elim conjE) simp
  from raised accepted request whole show ?thesis by (intro conjI)
qed

subsection \<open>The wildcard check of SFTPToGCSOperator\<close>

lemma wildcard_in_iff: "WILDCARD \<in> set s \<longleftrightarrow> 0 < count_list s WILDCARD"
  using count_list_0_iff [of s WILDCARD] by auto

lemma source_path_normalise [simp]: "source_path (normalise self) = source_path self"
  by (simp add: normalise_def)

lemma execute_many_wildcards:
  assumes "2 \<le> count_list (source_path self) WILDCARD"
  shows "execute get_tree_map self =
           (normalise self, [],
            Some (AirflowException
              (wildcard_message (count_list (source_path self) WILDCARD) (source_path self))))"
proof -
  from assms have "WILDCARD \<in> set (source_path self)"
    by (simp add: wildcard_in_iff)
  moreover from assms have "1 < count_list (source_path self) WILDCARD"
    by simp
  ultimately show ?thesis
    by (simp add: execute_def Let_def)
qed

lemma execute_few_wildcards:
  assumes "count_list (source_path self) WILDCARD \<le> 1"
  shows "snd (snd (execute get_tree_map self)) \<noteq> Some (AirflowException msg)"
proof (cases "WILDCARD \<in> set (source_path self)")
  case True
  with assms show ?thesis
    by (simp add: execute_def Let_def split: prod.splits)
next
  case False
  then show ?thesis
    by (auto simp: execute_def Let_def rsplit_once_second_def split: sum.splits if_splits)
qed

text \<open>
  C9. When \<open>source_path\<close> contains two or more wildcards, \<open>execute\<close> raises the
  \<open>AirflowException\<close> that reports their number, and no listing, transfer or deletion
  has been performed. With at most one wildcard, \<open>execute\<close> raises no
  \<open>AirflowException\<close>.
\<close>

theorem execute_wildcard_check:
  "(2 \<le> count_list (source_path self) WILDCARD \<longrightarrow>
      execute get_tree_map self =
        (normalise self, [],
         Some (AirflowException
           (wildcard_message (count_list (source_path self) WILDCARD) (source_path self)))))
   \<and> (count_list (source_path self) WILDCARD \<le> 1 \<longrightarrow>
        (\<forall>msg. snd (snd (execute get_tree_map self)) \<noteq> Some (AirflowException msg)))"
  using execute_many_wildcards [of self get_tree_map] execute_few_wildcards [of self get_tree_map]
  by simp

lemma count_two: "count_list (source_path operator_two_wildcards) WILDCARD = 2"
  by (simp add: operator_two_wildcards_def operator_example_def WILDCARD_def)

lemma count_one: "count_list (source_path operator_example) WILDCARD = 1"
  by (simp add: operator_example_def WILDCARD_def)

theorem execute_wildcard_check_witness:
  "2 \<le> count_list (source_path operator_two_wildcards) WILDCARD
   \<and> fst (snd (execute list_two_files operator_two_wildcards)) = []
   \<and> snd (snd (execute list_two_files operator_two_wildcards)) =
       Some (AirflowException (wildcard_message 2 ''/data/*/x*.csv''))
   \<and> count_list (source_path operator_example) WILDCARD \<le> 1
   \<and> (\<forall>msg. snd (snd (execute list_two_files operator_example)) \<noteq> Some (AirflowException msg))"
proof -
  have many: "2 \<le> count_list (source_path operator_two_wildcards) WILDCARD"
    by (simp only: count_two)
  have few: "count_list (source_path operator_example) WILDCARD \<le> 1"
    by (simp only: count_one)
  have path: "source_path operator_two_wildcards = ''/data/*/x*.csv''"
    by (simp add: operator_two_wildcards_def)
  note raised = execute_wildcard_check [of operator_two_wildcards list_two_files,
      THEN conjunct1, THEN mp, OF many]
  note quiet = execute_wildcard_check [of operator_example list_two_files,
      THEN conjunct2, THEN mp, OF few]
  have actions: "fst (snd (execute list_two_files operator_two_wildcards)) = []"
    by (simp only: raised fst_conv snd_conv)
  have "snd (snd (execute list_two_files operator_two_wildcards)) =
      Some (AirflowException
        (wildcard_message (count_list (source_path operator_two_wildcards) WILDCARD)
           (source_path operator_two_wildcards)))"
    by (simp only: raised snd_conv)
  then have "snd (snd (execute list_two_files operator_two_wildcards)) =
      Some (AirflowException (wildcard_message 2 (source_path operator_two_wildcards)))"
    by (simp only: count_two)
  then have error: "snd (snd (execute list_two_files operator_two_wildcards)) =
      Some (AirflowException (wildcard_message 2 ''/data/*/x*.csv''))"
    by (simp only: path)
  from many actions error few quiet show ?thesis
    by (intro conjI)
qed

lemma message_two:
  "wildcard_message 2 ''/data/*/x*.csv'' =
     ''Only one wildcard '' @ [CHR 0x27] @ ''*'' @ [CHR 0x27] @
     '' is allowed in source_path parameter. Found 2 in /data/*/x*.csv.''"
  by code_simp

text \<open>A run with one wildcard, and the two files the server lists.\<close>

lemma execute_example:
  "execute list_two_files operator_example =
     (normalise operator_example,
      [GetTreeMap ''/data'' ''/data/'' ''.csv'',
       RetrieveFile ''/data/a.csv'' True,
       Upload ''bucket'' ''in/a.csv'' ''application/octet-stream'' False,
       RetrieveFile ''/data/b.csv'' True,
       Upload ''bucket'' ''in/b.csv'' ''application/octet-stream'' False],
      None)"
  by code_simp

subsection \<open>Pool Allocator\<close>

lemma retry_waiters_bound:
  "alloc \<le> cap \<Longrightarrow> fst (retry_waiters cap alloc ws) \<le> cap"
proof (induction ws arbitrary: alloc)
  case Nil
  then show ?case by simp
next
  case (Cons w ws)
  show ?case
  proof (cases "alloc + waiter_slots w \<le> cap")
    case True
    with Cons.IH [of "alloc + waiter_slots w"] show ?thesis by simp
  next
    case False
    with Cons.IH [OF Cons.prems] show ?thesis
      by (simp add: case_prod_unfold Let_def)
  qed
qed

lemma allocator_okI:
  "(\<And>name p. pools a name = Some p \<Longrightarrow> allocated p \<le> capacity p) \<Longrightarrow> allocator_ok a"
  by (simp add: allocator_ok_def)

lemma allocator_okD:
  "allocator_ok a \<Longrightarrow> pools a name = Some p \<Longrightarrow> allocated p \<le> capacity p"
  by (simp add: allocator_ok_def)

lemma update_pool_ok:
  assumes "allocator_ok a" and "allocated q \<le> capacity q"
  shows "allocator_ok (a\<lparr>pools := (pools a)(pool_name \<mapsto> q)\<rparr>)"
proof (rule allocator_okI)
  fix name p
  assume "pools (a\<lparr>pools := (pools a)(pool_name \<mapsto> q)\<rparr>) name = Some p"
  then have "(name = pool_name \<and> p = q) \<or> pools a name = Some p"
    by (simp split: if_splits)
  then show "allocated p \<le> capacity p"
  proof
    assume "name = pool_name \<and> p = q"
    with assms(2) show ?thesis by simp
  next
    assume "pools a name = Some p"
    with assms(1) show ?thesis by (rule allocator_okD)
  qed
qed

lemma clock_update_ok: "allocator_ok a \<Longrightarrow> allocator_ok (a\<lparr>clock := c\<rparr>)"
  by (simp add: allocator_ok_def)

lemma try_acquire_ok:
  assumes "allocator_ok a"
  shows "allocator_ok (snd (try_acquire a pool_name slots weight))"
proof (cases "pools a pool_name")
  case None
  with assms show ?thesis by (simp add: try_acquire_def)
next
  case (Some p)
  from assms Some have p: "allocated p \<le> capacity p" by (rule allocator_okD)
  show ?thesis
  proof (cases "allocated p + slots \<le> capacity p")
    case True
    then have "allocated (p\<lparr>allocated := allocated p + slots\<rparr>)
        \<le> capacity (p\<lparr>allocated := allocated p + slots\<rparr>)" by simp
    from update_pool_ok [OF assms this] Some True show ?thesis
      by (simp add: try_acquire_def)
  next
    case False
    let ?w = "\<lparr>waiter_slots = slots, priority_weight = weight, enqueued_at = clock a\<rparr>"
    from p have "allocated (p\<lparr>waiters := enqueue ?w (waiters p)\<rparr>)
        \<le> capacity (p\<lparr>waiters := enqueue ?w (waiters p)\<rparr>)" by simp
    from clock_update_ok [OF update_pool_ok [OF assms this]] Some False show ?thesis
      by (simp add: try_acquire_def)
  qed
qed

lemma release_ok:
  assumes "allocator_ok a"
  shows "allocator_ok (release a pool_name slots)"
proof (cases "pools a pool_name")
  case None
  with assms show ?thesis by (simp add: release_def)
next
  case (Some p)
  obtain alloc' rest where r: "retry_waiters (capacity p) (allocated p - slots) (waiters p) = (alloc', rest)"
    by (cases "retry_waiters (capacity p) (allocated p - slots) (waiters p)")
  from assms Some have "allocated p \<le> capacity p" by (rule allocator_okD)
  then have "allocated p - slots \<le> capacity p" by arith
  then have "fst (retry_waiters (capacity p) (allocated p - slots) (waiters p)) \<le> capacity p"
    by (rule retry_waiters_bound)
  with r have "allocated (p\<lparr>allocated := alloc', waiters := rest\<rparr>)
      \<le> capacity (p\<lparr>allocated := alloc', waiters := rest\<rparr>)" by simp
  from update_pool_ok [OF assms this] Some r show ?thesis
    by (simp add: release_def)
qed

lemma apply_request_ok: "allocator_ok a \<Longrightarrow> allocator_ok (apply_request a r)"
  by (cases r) (simp_all add: try_acquire_ok release_ok)

lemma run_requests_ok: "allocator_ok a \<Longrightarrow> allocator_ok (run_requests a rs)"
  unfolding run_requests_def
  by (induction rs arbitrary: a) (simp_all add: apply_request_ok)

lemma new_allocator_ok: "allocator_ok (new_allocator config)"
proof (rule allocator_okI)
  fix name p
  assume "pools (new_allocator config) name = Some p"
  then have "map_of (map (\<lambda>(name, cap). (name, \<lparr>capacity = cap, allocated = 0, waiters = []\<rparr>)) config) name = Some p"
    by (simp add: new_allocator_def)
  then have "(name, p) \<in> set (map (\<lambda>(name, cap). (name, \<lparr>capacity = cap, allocated = 0, waiters = []\<rparr>)) config)"
    by (rule map_of_SomeD)
  then obtain cap where "p = \<lparr>capacity = cap, allocated = 0, waiters = []\<rparr>"
    by auto
  then show "allocated p \<le> capacity p" by simp
qed

text \<open>
  C4. For every pool, in every state that the allocator reaches from its start by
  acquisitions and releases in any order, the number of allocated slots is at most the
  capacity of the pool.
\<close>

theorem pool_capacity_invariant:
  assumes "pools (run_requests (new_allocator config) requests) pool_name = Some p"
  shows "allocated p \<le> capacity p"
  using run_requests_ok [OF new_allocator_ok] assms
  by (rule allocator_okD)

text \<open>
  A run: the pool of capacity 2 is filled, two requests are denied and wait, and the
  release of one slot grants the waiter of the higher priority.
\<close>

lemma run_example:
  "pools (run_requests (new_allocator two_pools) requests_example) ''default'' =
     Some \<lparr>capacity = 2, allocated = 2,
           waiters = [\<lparr>waiter_slots = 1, priority_weight = 5, enqueued_at = 0\<rparr>]\<rparr>"
  by (simp add: run_requests_def new_allocator_def two_pools_def requests_example_def
      try_acquire_def release_def before_def)

theorem pool_capacity_invariant_witness:
  "pools (run_requests (new_allocator two_pools) requests_example) ''default'' =
     Some \<lparr>capacity = 2, allocated = 2,
           waiters = [\<lparr>waiter_slots = 1, priority_weight = 5, enqueued_at = 0\<rparr>]\<rparr>
   \<and> allocated \<lparr>capacity = 2, allocated = 2,
           waiters = [\<lparr>waiter_slots = 1, priority_weight = 5, enqueued_at = 0\<rparr>]\<rparr>
       \<le> capacity \<lparr>capacity = 2, allocated = 2,
           waiters = [\<lparr>waiter_slots = 1, priority_weight = 5, enqueued_at = 0\<rparr>]\<rparr>"
  using pool_capacity_invariant [OF run_example] run_example by simp

text \<open>
  The invariant is one of acquisition and release only: the reconfiguration that the
  specification permits can set the capacity below the slots in use.
\<close>

lemma set_capacity_below_usage:
  "pools (set_capacity (run_requests (new_allocator two_pools) requests_example) ''default'' 1) ''default'' =
     Some \<lparr>capacity = 1, allocated = 2,
           waiters = [\<lparr>waiter_slots = 1, priority_weight = 5, enqueued_at = 0\<rparr>]\<rparr>"
  by (simp add: set_capacity_def run_example)

subsection \<open>Dependency Evaluator\<close>

text \<open>
  Without the check for an empty upstream, a rule that asks for one upstream state would
  not hold for a node that has no upstream.
\<close>

lemma rule_needs_upstream:
  "\<not> rule_holds ONE_SUCCESS [] \<and> rule_lost ONE_SUCCESS []"
  by simp

text \<open>
  C6. For a node with no upstream edges the Dependency Evaluator returns \<open>Satisfied\<close>,
  whatever the trigger rule of the node: on an empty list of upstream states, and so for
  every node of a run whose list of upstream nodes is empty.
\<close>

theorem no_upstream_satisfied:
  "evaluate_dependencies rule [] = Satisfied
   \<and> (upstream n = [] \<longrightarrow> node_dependencies task_instances n = Satisfied)"
  by (simp add: evaluate_dependencies_def node_dependencies_def upstream_states_def)

theorem no_upstream_satisfied_witness:
  "upstream node_a = [] \<and> trigger_rule node_a = ONE_SUCCESS
   \<and> node_dependencies instances_abc node_a = Satisfied"
proof -
  have none: "upstream node_a = []" by (simp add: node_a_def)
  note sat = no_upstream_satisfied [of ONE_SUCCESS node_a instances_abc, THEN conjunct2, THEN mp, OF none]
  from none sat show ?thesis by (simp add: node_a_def)
qed

subsection \<open>DagRun Manager\<close>









subsection \<open>internal\_api\_call\<close>

text \<open>
  C10. The decorator \<open>internal_api_call\<close> does not change behaviour: for every function
  and every positional and keyword arguments, the decorated function returns what the
  function returns, raises what it raises, and leaves the state the function leaves.
\<close>

theorem internal_api_call_identity:
  "internal_api_call func args kwargs s = func args kwargs s"
  by (simp add: internal_api_call_def)

end
